theory Spec2Isabelle
  imports Main
begin

section \<open>The Pingdom client of pingdom.py\<close>

text \<open>
  The module is a thin client for a remote monitoring service reached through a SOAP
  proxy. The proxy object (\<^verbatim>\<open>self._server\<close>) is the only collaborator; every remote
  call is a method of the proxy invoked with positional arguments. The model keeps
  \<^item> the attributes of a \<^verbatim>\<open>Pingdom\<close> instance in a record,
  \<^item> the list of invocations the proxy has received so far, in order, and
  \<^item> every exception the module can raise as a value of the type \<open>error\<close>.
  A method takes the instance and the invocation list and returns its result (or the
  exception) together with the instance and the list as the method leaves them.
\<close>

subsection \<open>Values\<close>

text \<open>
  Values a caller can hand to the client: \<^verbatim>\<open>None\<close>, integers, strings and tuples
  (a time is a tuple of integers). Python's \<^verbatim>\<open>==\<close> on these values is structural and is
  HOL's equality.
\<close>

datatype pyval = PNone | PInt int | PStr string | PTuple "pyval list"

text \<open>
  Positional arguments as the proxy receives them: a plain value, an instance of
  \<^verbatim>\<open>SOAPpy.dateTimeType\<close> wrapping the value it was built from, or a dictionary with
  string keys, written in the order of the dictionary display in the source and read with
  \<open>map_of\<close>.
\<close>

datatype arg = Val pyval | DateTime pyval | Dict "(string \<times> arg) list"

text \<open>An invocation: the name of the remote procedure and its positional arguments.\<close>

type_synonym invocation = "string \<times> arg list"

text \<open>
  A record returned by the service (a SOAPpy struct); \<^verbatim>\<open>x._asdict()\<close> turns it into a
  plain mapping from field names to values.
\<close>

datatype struct = structType "(string \<times> pyval) list"

fun asdict :: "struct \<Rightarrow> (string \<rightharpoonup> pyval)" where
  "asdict (structType kvs) = map_of kvs"

subsection \<open>Constant tables\<close>

definition STATUS_CODES :: "(int \<times> string) list" where
  "STATUS_CODES =
    [(0, ''OK''), (1, ''Reserved''), (2, ''Reserved''), (3, ''Invalid Argument''),
     (4, ''Internal Error''), (5, ''Wrong Identification''), (6, ''Wrong Authorization''),
     (7, ''Wrong Authentication'')]"

definition CHECK_RESULTS :: "(string \<times> string) list" where
  "CHECK_RESULTS =
    [(''CHECK_UP'', ''Up''), (''CHECK_DOWN'', ''Down''), (''CHECK_UNKNOWN'', ''Unknown'')]"

definition REPORT_RESOLUTIONS :: "(string \<times> string) list" where
  "REPORT_RESOLUTIONS =
    [(''DAILY'', ''Daily''), (''WEEKLY'', ''Weekly''), (''MONTHLY'', ''Montly'')]"

subsection \<open>Exceptions\<close>

text \<open>
  \<open>PingdomException status meaning\<close> is a constructed \<^verbatim>\<open>PingdomException\<close>: its
  \<^verbatim>\<open>status\<close> and the entry of \<^verbatim>\<open>STATUS_CODES\<close> its message is formatted from
  (\<^verbatim>\<open>"Error %s: %s" % (self.status, STATUS_CODES[self.status])\<close>). The other
  constructors are Python's built-in exceptions with their argument; where the
  interpreter raises one by itself, its message is abbreviated.
\<close>

datatype error =
    PingdomException int string
  | KeyError pyval
  | ValueError string
  | TypeError string
  | AttributeError string

text \<open>
  \<^verbatim>\<open>raise PingdomException(status)\<close>. The constructor subscripts \<^verbatim>\<open>STATUS_CODES\<close>
  with the status it was given, so for a status that is not a key of the table the
  constructor itself raises \<^verbatim>\<open>KeyError(status)\<close>, and that is the exception which
  leaves the \<^verbatim>\<open>raise\<close> statement.
\<close>

fun raise_PingdomException :: "pyval \<Rightarrow> error" where
  "raise_PingdomException (PInt k) =
     (case map_of STATUS_CODES k of
        Some meaning \<Rightarrow> PingdomException k meaning
      | None \<Rightarrow> KeyError (PInt k))"
| "raise_PingdomException status = KeyError status"

subsection \<open>The SOAP library\<close>

text \<open>
  What the module uses of SOAPpy, which is not part of it: the procedures of the proxy
  and the constructor \<^verbatim>\<open>SOAPpy.dateTimeType\<close>. Both are parameters of the model.

  The proxy answers an invocation as a function of everything it has received, the
  current invocation last. The shapes of the answers are those of the service: a pair
  \<^verbatim>\<open>(status, result)\<close> for every procedure but \<^verbatim>\<open>Auth_logout\<close>, which answers with
  a dictionary. Results that are dictionaries stay dictionaries, so that a missing
  \<^verbatim>\<open>'item'\<close> or \<^verbatim>\<open>'status'\<close> is the \<^verbatim>\<open>KeyError\<close> it is in Python. A failure of the
  transport itself (an exception of SOAPpy) is outside this model: the proxy always
  answers.

  \<open>dateTimeType\<close> is the constructor: it checks the value it is given and either
  returns the date-time object or raises (the library raises \<^verbatim>\<open>ValueError\<close> for a
  tuple of fewer than six fields, for a field out of its range and for a string).
\<close>

record server =
  Auth_login :: "invocation list \<Rightarrow> int \<times> string"
  Auth_logout :: "invocation list \<Rightarrow> (string \<times> int) list"
  Check_getList :: "invocation list \<Rightarrow> int \<times> (string \<times> pyval list) list"
  Location_getList :: "invocation list \<Rightarrow> int \<times> (string \<times> pyval list) list"
  Report_getCurrentStates :: "invocation list \<Rightarrow> int \<times> (string \<times> struct list) list"
  Report_getDowntimes :: "invocation list \<Rightarrow> int \<times> (string \<times> struct list) list"
  Test_echo :: "invocation list \<Rightarrow> int \<times> string"
  dateTimeType :: "pyval \<Rightarrow> error + arg"

subsection \<open>The instance\<close>

text \<open>
  The attributes \<^verbatim>\<open>__init__\<close> stores: \<^verbatim>\<open>_credentials\<close>, \<^verbatim>\<open>_apikey\<close>,
  \<^verbatim>\<open>_sessionid\<close>, \<^verbatim>\<open>_checks\<close> and \<^verbatim>\<open>_locations\<close> (an Isabelle name cannot start
  with an underscore, so the fields are prefixed \<open>f\<close>). \<^verbatim>\<open>_server\<close> is the proxy,
  passed to every method as \<open>srv\<close>.
\<close>

record pingdom =
  f_credentials :: "(string \<times> arg) list"
  f_apikey :: string
  f_sessionid :: "string option"
  f_checks :: "pyval list option"
  f_locations :: "pyval list option"

type_synonym world = "pingdom \<times> invocation list"

text \<open>The value of \<^verbatim>\<open>self._sessionid\<close> as an argument: the token, or \<^verbatim>\<open>None\<close>.\<close>

definition sessionid_value :: "pingdom \<Rightarrow> pyval" where
  "sessionid_value self = (case f_sessionid self of None \<Rightarrow> PNone | Some s \<Rightarrow> PStr s)"

text \<open>\<^verbatim>\<open>loggedin\<close> and \<^verbatim>\<open>apikey\<close>, the two properties that read an attribute that exists.\<close>

definition loggedin :: "pingdom \<Rightarrow> bool" where
  "loggedin self = (f_sessionid self \<noteq> None)"

definition apikey :: "pingdom \<Rightarrow> string" where
  "apikey self = f_apikey self"

subsection \<open>Internal methods\<close>

text \<open>
  \<^verbatim>\<open>
  def _callWithParams(self, *args):
      method = self._server.__getattr__(args[0])
      if args[0] == 'Auth_login':
          param = self._credentials
      else:
          param = self._sessionid
      return method(self.apikey, param, *args[1:])
  \<close>
  \<open>method\<close> is the proxy's procedure of the name \<open>name\<close> (\<open>args[0]\<close>); \<open>rest\<close> is
  \<open>args[1:]\<close>. The invocation is appended to the list of invocations and the procedure
  answers.
\<close>

definition callWithParams ::
  "(invocation list \<Rightarrow> 'r) \<Rightarrow> pingdom \<Rightarrow> string \<Rightarrow> arg list \<Rightarrow> invocation list
     \<Rightarrow> 'r \<times> invocation list" where
  "callWithParams method self name rest sent =
     (let param = (if name = ''Auth_login'' then Dict (f_credentials self)
                   else Val (sessionid_value self));
          sent' = sent @ [(name, Val (PStr (apikey self)) # param # rest)]
      in (method sent', sent'))"

text \<open>
  \<^verbatim>\<open>
  def _login(self):
      status,sessionid = self._callWithParams('Auth_login')
      if status == 0:
          self._sessionid = sessionid
          return True
      else:
          raise PingdomException(status)
  \<close>
\<close>

definition login :: "server \<Rightarrow> world \<Rightarrow> (error + bool) \<times> world" where
  "login srv w =
     (case w of (self, sent) \<Rightarrow>
        (case callWithParams (Auth_login srv) self ''Auth_login'' [] sent of
           ((status, sessionid), sent') \<Rightarrow>
             if status = 0 then (Inr True, (self\<lparr>f_sessionid := Some sessionid\<rparr>, sent'))
             else (Inl (raise_PingdomException (PInt status)), (self, sent'))))"

text \<open>
  \<^verbatim>\<open>
  def _logout(self):
      if self._sessionid == None:
          return True
      logoutResponse = self._callWithParams('Auth_logout')
      status = logoutResponse['status']
      if status == 0:
          self._sessionid = None
          return True
      else:
          raise PingdomException(status)
  \<close>
\<close>

definition logout :: "server \<Rightarrow> world \<Rightarrow> (error + bool) \<times> world" where
  "logout srv w =
     (case w of (self, sent) \<Rightarrow>
        if f_sessionid self = None then (Inr True, (self, sent))
        else
          (case callWithParams (Auth_logout srv) self ''Auth_logout'' [] sent of
             (logoutResponse, sent') \<Rightarrow>
               (case map_of logoutResponse ''status'' of
                  None \<Rightarrow> (Inl (KeyError (PStr ''status'')), (self, sent'))
                | Some status \<Rightarrow>
                    if status = 0 then (Inr True, (self\<lparr>f_sessionid := None\<rparr>, sent'))
                    else (Inl (raise_PingdomException (PInt status)), (self, sent')))))"

text \<open>
  \<^verbatim>\<open>
  def _check_getList(self):
      status, checklist = self._callWithParams('Check_getList')
      if status == 0:
          self._checks = checklist['item']
          return True
      else:
          raise PingdomException(status)
  \<close>
  and \<^verbatim>\<open>_location_getList\<close>, the same with \<^verbatim>\<open>Location_getList\<close> and
  \<^verbatim>\<open>self._locations\<close>.
\<close>

definition check_getList :: "server \<Rightarrow> world \<Rightarrow> (error + bool) \<times> world" where
  "check_getList srv w =
     (case w of (self, sent) \<Rightarrow>
        (case callWithParams (Check_getList srv) self ''Check_getList'' [] sent of
           ((status, checklist), sent') \<Rightarrow>
             if status = 0 then
               (case map_of checklist ''item'' of
                  None \<Rightarrow> (Inl (KeyError (PStr ''item'')), (self, sent'))
                | Some items \<Rightarrow> (Inr True, (self\<lparr>f_checks := Some items\<rparr>, sent')))
             else (Inl (raise_PingdomException (PInt status)), (self, sent'))))"

definition location_getList :: "server \<Rightarrow> world \<Rightarrow> (error + bool) \<times> world" where
  "location_getList srv w =
     (case w of (self, sent) \<Rightarrow>
        (case callWithParams (Location_getList srv) self ''Location_getList'' [] sent of
           ((status, locationlist), sent') \<Rightarrow>
             if status = 0 then
               (case map_of locationlist ''item'' of
                  None \<Rightarrow> (Inl (KeyError (PStr ''item'')), (self, sent'))
                | Some items \<Rightarrow> (Inr True, (self\<lparr>f_locations := Some items\<rparr>, sent')))
             else (Inl (raise_PingdomException (PInt status)), (self, sent'))))"

text \<open>
  \<^verbatim>\<open>
  def _report_getCurrentStates(self):
      status, states = self._callWithParams('Report_getCurrentStates')
      if status == 0:
          states = states['item']
          states = map(lambda x: x._asdict(), states)
          return states
      else:
          raise PingdomException(status)
  \<close>
\<close>

definition report_getCurrentStates ::
  "server \<Rightarrow> world \<Rightarrow> (error + (string \<rightharpoonup> pyval) list) \<times> world" where
  "report_getCurrentStates srv w =
     (case w of (self, sent) \<Rightarrow>
        (case callWithParams (Report_getCurrentStates srv) self
                ''Report_getCurrentStates'' [] sent of
           ((status, states), sent') \<Rightarrow>
             if status = 0 then
               (case map_of states ''item'' of
                  None \<Rightarrow> (Inl (KeyError (PStr ''item'')), (self, sent'))
                | Some items \<Rightarrow> (Inr (map asdict items), (self, sent')))
             else (Inl (raise_PingdomException (PInt status)), (self, sent'))))"

text \<open>
  \<^verbatim>\<open>
  def _convertTime(self, time):
      return SOAPpy.dateTimeType(time[:6])
  \<close>
  The slice of a tuple or a string is its first six elements (all of them when there
  are fewer); \<^verbatim>\<open>None\<close> and an integer cannot be subscripted. The slice goes to the
  library's constructor, which may raise.
\<close>

fun slice6 :: "pyval \<Rightarrow> error + pyval" where
  "slice6 (PTuple xs) = Inr (PTuple (take 6 xs))"
| "slice6 (PStr s) = Inr (PStr (take 6 s))"
| "slice6 PNone = Inl (TypeError ''NoneType object is not subscriptable'')"
| "slice6 (PInt n) = Inl (TypeError ''int object is not subscriptable'')"

definition convertTime :: "server \<Rightarrow> pyval \<Rightarrow> error + arg" where
  "convertTime srv time =
     (case slice6 time of Inl e \<Rightarrow> Inl e | Inr t \<Rightarrow> dateTimeType srv t)"

text \<open>
  \<^verbatim>\<open>
  def _report_getDowntimes(self,check,starttime,endtime,resolution):
      params = {
          'checkName':'Communicate',
          'from': self._convertTime(starttime),
          'to': self._convertTime(endtime),
          'resolution': 'DAILY'
      }
      status, states = self._callWithParams('Report_getDowntimes', params)
      if status == 0:
          states = states['item']
          states = map(lambda x: x._asdict(), states)
          return states
      else:
          raise PingdomException(status)
  \<close>
\<close>

definition report_getDowntimes ::
  "server \<Rightarrow> pyval \<Rightarrow> pyval \<Rightarrow> pyval \<Rightarrow> pyval \<Rightarrow> world
     \<Rightarrow> (error + (string \<rightharpoonup> pyval) list) \<times> world" where
  "report_getDowntimes srv check starttime endtime resolution w =
     (case w of (self, sent) \<Rightarrow>
        (case convertTime srv starttime of
           Inl e \<Rightarrow> (Inl e, (self, sent))
         | Inr from \<Rightarrow>
            (case convertTime srv endtime of
               Inl e \<Rightarrow> (Inl e, (self, sent))
             | Inr to \<Rightarrow>
                (let params = [(''checkName'', Val (PStr ''Communicate'')),
                               (''from'', from), (''to'', to),
                               (''resolution'', Val (PStr ''DAILY''))]
                 in
                 (case callWithParams (Report_getDowntimes srv) self
                         ''Report_getDowntimes'' [Dict params] sent of
                    ((status, states), sent') \<Rightarrow>
                      if status = 0 then
                        (case map_of states ''item'' of
                           None \<Rightarrow> (Inl (KeyError (PStr ''item'')), (self, sent'))
                         | Some items \<Rightarrow> (Inr (map asdict items), (self, sent')))
                      else (Inl (raise_PingdomException (PInt status)), (self, sent')))))))"

text \<open>
  A call of the bound method \<^verbatim>\<open>self._report_getDowntimes\<close> with a list of positional
  arguments. Python binds the arguments to the four parameters before the body runs
  and raises \<^verbatim>\<open>TypeError\<close> when their number is not four.
\<close>

definition call_report_getDowntimes ::
  "server \<Rightarrow> pyval list \<Rightarrow> world \<Rightarrow> (error + (string \<rightharpoonup> pyval) list) \<times> world" where
  "call_report_getDowntimes srv args w =
     (case args of
        [check, starttime, endtime, resolution] \<Rightarrow>
          report_getDowntimes srv check starttime endtime resolution w
      | _ \<Rightarrow> (Inl (TypeError ''_report_getDowntimes() takes exactly 5 arguments''), w))"

subsection \<open>Construction and disposal\<close>

text \<open>
  \<^verbatim>\<open>
  def __init__(self, username, password, apikey):
      self._credentials = {'username':username, 'password':password}
      self._apikey = apikey
      self._server = SOAPpy.WSDL.Proxy(PINGDOM_WSDL)
      self._sessionid = None
      self._checks = None
      self._locations = None
      self._login()
  \<close>
  When \<^verbatim>\<open>_login\<close> raises, the exception leaves the constructor and the caller gets no
  instance. The parameter \<^verbatim>\<open>apikey\<close> is written \<open>api_key\<close>, the name \<open>apikey\<close> being
  the property.
\<close>

definition Pingdom_init ::
  "server \<Rightarrow> string \<Rightarrow> string \<Rightarrow> string \<Rightarrow> invocation list
     \<Rightarrow> (error + pingdom) \<times> invocation list" where
  "Pingdom_init srv username password api_key sent =
     (let self = \<lparr>f_credentials = [(''username'', Val (PStr username)),
                                    (''password'', Val (PStr password))],
                   f_apikey = api_key, f_sessionid = None,
                   f_checks = None, f_locations = None\<rparr>
      in (case login srv (self, sent) of
            (Inl e, (self', sent')) \<Rightarrow> (Inl e, sent')
          | (Inr ok, (self', sent')) \<Rightarrow> (Inr self', sent')))"

text \<open>
  \<^verbatim>\<open>
  def __del__(self):
      self._logout()
  \<close>
  The value of \<^verbatim>\<open>_logout\<close> is dropped; an exception it raises leaves \<^verbatim>\<open>__del__\<close>.
\<close>

definition Pingdom_del :: "server \<Rightarrow> world \<Rightarrow> (error + unit) \<times> world" where
  "Pingdom_del srv w =
     (case logout srv w of
        (Inl e, w') \<Rightarrow> (Inl e, w')
      | (Inr ok, w') \<Rightarrow> (Inr (), w'))"

text \<open>
  Disposal. \<^verbatim>\<open>__del__\<close> is the finalizer of the class: the program does not call it,
  the interpreter does when it disposes of the instance. Python's rule for that call is
  that an exception raised by \<^verbatim>\<open>__del__\<close> is not propagated: the interpreter prints it
  on \<^verbatim>\<open>sys.stderr\<close> and goes on. \<open>stderr\<close> is the list of exceptions reported there,
  in order; the result of \<open>dispose\<close> is what the code that dropped the instance sees.
\<close>

definition dispose ::
  "server \<Rightarrow> world \<times> error list \<Rightarrow> (error + unit) \<times> world \<times> error list" where
  "dispose srv ws =
     (case ws of (w, stderr) \<Rightarrow>
        (case Pingdom_del srv w of
           (Inl e, w') \<Rightarrow> (Inr (), (w', stderr @ [e]))
         | (Inr u, w') \<Rightarrow> (Inr (), (w', stderr))))"

subsection \<open>Attribute lookup and the username property\<close>

text \<open>
  The instance dictionary as \<^verbatim>\<open>__init__\<close> fills it (no method adds or removes a key),
  and the names bound in the body of the class. Looking a name up on an instance
  finds it in one of the two or raises \<^verbatim>\<open>AttributeError\<close> (the attributes inherited
  from \<^verbatim>\<open>object\<close> all have names of the form \<^verbatim>\<open>__x__\<close> and are left out).
\<close>

datatype attribute =
    Credentials "(string \<times> arg) list"
  | ApiKey string
  | Server
  | SessionId "string option"
  | Cache "pyval list option"
  | ClassMember string

definition instance_dict :: "pingdom \<Rightarrow> (string \<times> attribute) list" where
  "instance_dict self =
     [(''_credentials'', Credentials (f_credentials self)),
      (''_apikey'', ApiKey (f_apikey self)),
      (''_server'', Server),
      (''_sessionid'', SessionId (f_sessionid self)),
      (''_checks'', Cache (f_checks self)),
      (''_locations'', Cache (f_locations self))]"

definition class_names :: "string list" where
  "class_names =
     [''__init__'', ''loggedin'', ''username'', ''apikey'', ''_callWithParams'',
      ''_login'', ''_logout'', ''_check_getList'', ''_location_getList'',
      ''_report_getCurrentStates'', ''_report_getDowntimes'', ''_convertTime'',
      ''checks'', ''locations'', ''states'', ''downtimes'', ''downtimesFor'', ''echo'',
      ''__del__'', ''__repr__'']"

definition getattribute :: "pingdom \<Rightarrow> string \<Rightarrow> error + attribute" where
  "getattribute self name =
     (case map_of (instance_dict self) name of
        Some v \<Rightarrow> Inr v
      | None \<Rightarrow> if name \<in> set class_names then Inr (ClassMember name)
                else Inl (AttributeError name))"

fun subscript :: "attribute \<Rightarrow> string \<Rightarrow> error + arg" where
  "subscript (Credentials d) key =
     (case map_of d key of Some v \<Rightarrow> Inr v | None \<Rightarrow> Inl (KeyError (PStr key)))"
| "subscript other key = Inl (TypeError ''object is not subscriptable'')"

text \<open>
  \<^verbatim>\<open>
  @property
  def username(self):
      return self.credentials['username']
  \<close>
\<close>

definition username :: "pingdom \<Rightarrow> error + arg" where
  "username self =
     (case getattribute self ''credentials'' of
        Inl e \<Rightarrow> Inl e
      | Inr d \<Rightarrow> subscript d ''username'')"

subsection \<open>Public properties and methods\<close>

text \<open>
  \<^verbatim>\<open>
  @property
  def checks(self):
      if self._checks is None:
          self._check_getList()
      return self._checks
  \<close>
  and the same for \<^verbatim>\<open>locations\<close>. The value returned is the attribute as it is after
  the fetch.
\<close>

definition checks :: "server \<Rightarrow> world \<Rightarrow> (error + pyval list option) \<times> world" where
  "checks srv w =
     (case w of (self, sent) \<Rightarrow>
        if f_checks self = None then
          (case check_getList srv (self, sent) of
             (Inl e, w') \<Rightarrow> (Inl e, w')
           | (Inr ok, (self', sent')) \<Rightarrow> (Inr (f_checks self'), (self', sent')))
        else (Inr (f_checks self), (self, sent)))"

definition locations :: "server \<Rightarrow> world \<Rightarrow> (error + pyval list option) \<times> world" where
  "locations srv w =
     (case w of (self, sent) \<Rightarrow>
        if f_locations self = None then
          (case location_getList srv (self, sent) of
             (Inl e, w') \<Rightarrow> (Inl e, w')
           | (Inr ok, (self', sent')) \<Rightarrow> (Inr (f_locations self'), (self', sent')))
        else (Inr (f_locations self), (self, sent)))"

definition states ::
  "server \<Rightarrow> world \<Rightarrow> (error + (string \<rightharpoonup> pyval) list) \<times> world" where
  "states srv w = report_getCurrentStates srv w"

text \<open>\<^verbatim>\<open>def downtimes(self): return self._report_getDowntimes()\<close>\<close>

definition downtimes ::
  "server \<Rightarrow> world \<Rightarrow> (error + (string \<rightharpoonup> pyval) list) \<times> world" where
  "downtimes srv w = call_report_getDowntimes srv [] w"

text \<open>\<^verbatim>\<open>resolution not in REPORT_RESOLUTIONS\<close>: membership among the keys of a dictionary
  whose keys are strings.\<close>

fun key_in :: "pyval \<Rightarrow> (string \<times> 'a) list \<Rightarrow> bool" where
  "key_in (PStr s) d = (s \<in> set (map fst d))"
| "key_in other d = False"

text \<open>
  \<^verbatim>\<open>
  def downtimesFor(self,check,starttime,endtime,resolution='DAILY'):
      if starttime == endtime:
          raise ValueError("Start time and end time must be different")
      elif resolution not in REPORT_RESOLUTIONS:
          raise ValueError("Invalid report resolution")
      elif not check in self.checks:
          raise PingdomException("No such check available")
      elif None in (check,starttime,endtime,resolution):
          raise TypeError("Invalid type: NoneType")
      else:
          return self._report_getDowntimes(check,starttime,endtime,resolution)
  \<close>
  The third test reads the property \<^verbatim>\<open>checks\<close>, which may fetch the list and may
  raise. \<^verbatim>\<open>in\<close> on \<^verbatim>\<open>None\<close> is a \<^verbatim>\<open>TypeError\<close>.
\<close>

definition downtimesFor ::
  "server \<Rightarrow> pyval \<Rightarrow> pyval \<Rightarrow> pyval \<Rightarrow> pyval \<Rightarrow> world
     \<Rightarrow> (error + (string \<rightharpoonup> pyval) list) \<times> world" where
  "downtimesFor srv check starttime endtime resolution w =
     (if starttime = endtime then
        (Inl (ValueError ''Start time and end time must be different''), w)
      else if \<not> key_in resolution REPORT_RESOLUTIONS then
        (Inl (ValueError ''Invalid report resolution''), w)
      else
        (case checks srv w of
           (Inl e, w') \<Rightarrow> (Inl e, w')
         | (Inr None, w') \<Rightarrow> (Inl (TypeError ''argument of type NoneType is not iterable''), w')
         | (Inr (Some cs), w') \<Rightarrow>
             if check \<notin> set cs then
               (Inl (raise_PingdomException (PStr ''No such check available'')), w')
             else if PNone \<in> set [check, starttime, endtime, resolution] then
               (Inl (TypeError ''Invalid type: NoneType''), w')
             else call_report_getDowntimes srv [check, starttime, endtime, resolution] w'))"

text \<open>The call that leaves \<^verbatim>\<open>resolution\<close> to its default.\<close>

definition downtimesFor_default ::
  "server \<Rightarrow> pyval \<Rightarrow> pyval \<Rightarrow> pyval \<Rightarrow> world
     \<Rightarrow> (error + (string \<rightharpoonup> pyval) list) \<times> world" where
  "downtimesFor_default srv check starttime endtime w =
     downtimesFor srv check starttime endtime (PStr ''DAILY'') w"

text \<open>
  \<^verbatim>\<open>
  def echo(self,inString):
      status,result = self._server.Test_echo(inString)
      if status == 0:
          return result
      else:
          raise PingdomException(status)
  \<close>
  The procedure of the proxy is invoked directly, with the one argument.
\<close>

definition echo :: "server \<Rightarrow> pyval \<Rightarrow> world \<Rightarrow> (error + string) \<times> world" where
  "echo srv inString w =
     (case w of (self, sent) \<Rightarrow>
        (let sent' = sent @ [(''Test_echo'', [Val inString])]
         in (case Test_echo srv sent' of
               (status, result) \<Rightarrow>
                 if status = 0 then (Inr result, (self, sent'))
                 else (Inl (raise_PingdomException (PInt status)), (self, sent')))))"

subsection \<open>Repeated use\<close>

text \<open>
  A caller that runs an operation \<open>n\<close> times in a row on one instance, going on after an
  exception: the results in order, and the instance and the invocation list at the end.
\<close>

fun repeatedly :: "nat \<Rightarrow> (world \<Rightarrow> 'a \<times> world) \<Rightarrow> world \<Rightarrow> 'a list \<times> world" where
  "repeatedly 0 f w = ([], w)"
| "repeatedly (Suc n) f w =
     (case f w of (r, w') \<Rightarrow> (case repeatedly n f w' of (rs, w'') \<Rightarrow> (r # rs, w'')))"

subsection \<open>Proxies and instances for concrete runs\<close>

text \<open>
  A constructor for the runs. It accepts a tuple of six integers that are a date and a
  time of day between 1970 and 2037, with a day of the month of at most 28, and keeps
  the tuple; it raises \<^verbatim>\<open>ValueError\<close> for every other value. The library accepts
  these values too (and longer months and other years besides); the runs below use only
  values accepted here.
\<close>

fun int_fields :: "pyval list \<Rightarrow> int list option" where
  "int_fields [] = Some []"
| "int_fields (PInt n # xs) =
     (case int_fields xs of None \<Rightarrow> None | Some ns \<Rightarrow> Some (n # ns))"
| "int_fields (other # xs) = None"

definition plain_dateTimeType :: "pyval \<Rightarrow> error + arg" where
  "plain_dateTimeType v =
     (case v of
        PTuple xs \<Rightarrow>
          (case int_fields xs of
             Some [y, mo, d, h, mi, sec] \<Rightarrow>
               if 1970 \<le> y \<and> y \<le> 2037 \<and> 1 \<le> mo \<and> mo \<le> 12 \<and> 1 \<le> d \<and> d \<le> 28
                  \<and> 0 \<le> h \<and> h \<le> 23 \<and> 0 \<le> mi \<and> mi \<le> 59 \<and> 0 \<le> sec \<and> sec \<le> 59
               then Inr (DateTime v)
               else Inl (ValueError ''invalid dateTime value'')
           | _ \<Rightarrow> Inl (ValueError ''invalid dateTime value''))
      | _ \<Rightarrow> Inl (ValueError ''invalid dateTime value''))"

text \<open>A library whose proxy answers every procedure with the given status.\<close>

definition srv_status :: "int \<Rightarrow> server" where
  "srv_status st =
     \<lparr>Auth_login = (\<lambda>sent. (st, ''token'')),
      Auth_logout = (\<lambda>sent. [(''status'', st)]),
      Check_getList = (\<lambda>sent. (st, [(''item'', [PStr ''www'', PStr ''db''])])),
      Location_getList = (\<lambda>sent. (st, [(''item'', [PStr ''Stockholm''])])),
      Report_getCurrentStates = (\<lambda>sent. (st, [(''item'',
         [structType [(''checkName'', PStr ''www''), (''checkState'', PStr ''CHECK_UP'')]])])),
      Report_getDowntimes = (\<lambda>sent. (st, [(''item'',
         [structType [(''from'', PInt 10), (''to'', PInt 20)]])])),
      Test_echo = (\<lambda>sent. (st, ''hello'')),
      dateTimeType = plain_dateTimeType\<rparr>"

text \<open>A proxy whose list procedures fail once (status 4) and answer with status 0 from
  the second invocation on.\<close>

definition srv_flaky :: server where
  "srv_flaky =
     (srv_status 0)
       \<lparr>Check_getList := (\<lambda>sent. if length sent \<le> 1 then (4, [])
                                   else (0, [(''item'', [PStr ''www'', PStr ''db''])])),
        Location_getList := (\<lambda>sent. if length sent \<le> 1 then (4, [])
                                   else (0, [(''item'', [PStr ''Stockholm''])]))\<rparr>"

text \<open>A logged-in instance with nothing cached, and one with the checks cached.\<close>

definition client0 :: pingdom where
  "client0 =
     \<lparr>f_credentials = [(''username'', Val (PStr ''dan'')), (''password'', Val (PStr ''pw''))],
      f_apikey = ''key'', f_sessionid = Some ''token'',
      f_checks = None, f_locations = None\<rparr>"

definition client1 :: pingdom where
  "client1 = client0\<lparr>f_checks := Some [PStr ''www'', PStr ''db'']\<rparr>"

definition jan1 :: pyval where
  "jan1 = PTuple [PInt 2009, PInt 1, PInt 1, PInt 0, PInt 0, PInt 0, PInt 3, PInt 1, PInt 0]"

definition jan2 :: pyval where
  "jan2 = PTuple [PInt 2009, PInt 1, PInt 2, PInt 0, PInt 0, PInt 0, PInt 4, PInt 2, PInt 0]"

section \<open>Properties\<close>

subsection \<open>Auxiliary facts\<close>

text \<open>What \<open>callWithParams\<close> sends: the API key first, then the credentials for
  \<^verbatim>\<open>Auth_login\<close> and the session token for any other name, then the remaining
  arguments.\<close>

lemma callWithParams_sent:
  "callWithParams method self name rest sent =
     (method (sent @ [(name, Val (PStr (f_apikey self)) #
                 (if name = ''Auth_login'' then Dict (f_credentials self)
                  else Val (sessionid_value self)) # rest)]),
      sent @ [(name, Val (PStr (f_apikey self)) #
                 (if name = ''Auth_login'' then Dict (f_credentials self)
                  else Val (sessionid_value self)) # rest)])"
  by (simp add: callWithParams_def apikey_def Let_def)

lemma checks_cached:
  "f_checks self = Some cs \<Longrightarrow> checks srv (self, sent) = (Inr (Some cs), (self, sent))"
  by (simp add: checks_def)

lemma repeatedly_checks_cached:
  "f_checks self = Some cs \<Longrightarrow>
   repeatedly n (checks srv) (self, sent) = (replicate n (Inr (Some cs)), (self, sent))"
  by (induction n) (simp_all add: checks_cached)

lemma checks_fetch_ok:
  assumes "f_checks self = None"
    and "Check_getList srv (sent @ [(''Check_getList'',
            [Val (PStr (f_apikey self)), Val (sessionid_value self)])]) = (0, res)"
    and "map_of res ''item'' = Some items"
  shows "checks srv (self, sent) =
     (Inr (Some items), (self\<lparr>f_checks := Some items\<rparr>,
        sent @ [(''Check_getList'', [Val (PStr (f_apikey self)), Val (sessionid_value self)])]))"
  using assms by (simp add: checks_def check_getList_def callWithParams_sent)

lemma checks_fetch_fail:
  assumes "f_checks self = None"
    and "fst (Check_getList srv (sent @ [(''Check_getList'',
            [Val (PStr (f_apikey self)), Val (sessionid_value self)])])) \<noteq> 0"
  shows "isl (fst (checks srv (self, sent))) \<and> snd (checks srv (self, sent)) =
     (self, sent @ [(''Check_getList'', [Val (PStr (f_apikey self)), Val (sessionid_value self)])])"
proof -
  obtain st res where r: "Check_getList srv (sent @ [(''Check_getList'',
            [Val (PStr (f_apikey self)), Val (sessionid_value self)])]) = (st, res)"
    by (cases "Check_getList srv (sent @ [(''Check_getList'',
            [Val (PStr (f_apikey self)), Val (sessionid_value self)])])")
  with assms have "st \<noteq> 0" by simp
  with assms(1) r show ?thesis
    by (simp add: checks_def check_getList_def callWithParams_sent)
qed

lemma checks_leaves_locations:
  "f_locations (fst (snd (checks srv (self, sent)))) = f_locations self"
  by (simp add: checks_def check_getList_def callWithParams_sent split: prod.splits option.splits)

lemma checks_sent:
  "snd (snd (checks srv (self, sent))) = sent \<or>
   snd (snd (checks srv (self, sent))) =
     sent @ [(''Check_getList'', [Val (PStr (f_apikey self)), Val (sessionid_value self)])]"
  by (simp add: checks_def check_getList_def callWithParams_sent split: prod.splits option.splits)

lemma states_world:
  "snd (states srv (self, sent)) =
     (self, sent @ [(''Report_getCurrentStates'',
                      [Val (PStr (f_apikey self)), Val (sessionid_value self)])])"
  by (simp add: states_def report_getCurrentStates_def callWithParams_sent
           split: prod.splits option.splits)

lemma repeatedly_states_world:
  "snd (repeatedly n (states srv) (self, sent)) =
     (self, sent @ replicate n (''Report_getCurrentStates'',
                      [Val (PStr (f_apikey self)), Val (sessionid_value self)]))"
proof (induction n arbitrary: sent)
  case 0
  show ?case by simp
next
  case (Suc n)
  obtain r where r: "states srv (self, sent) =
      (r, (self, sent @ [(''Report_getCurrentStates'',
                      [Val (PStr (f_apikey self)), Val (sessionid_value self)])]))"
    using states_world [of srv self sent] by (cases "states srv (self, sent)") simp
  obtain rs w' where rs: "repeatedly n (states srv)
      (self, sent @ [(''Report_getCurrentStates'',
                      [Val (PStr (f_apikey self)), Val (sessionid_value self)])]) = (rs, w')"
    by (cases "repeatedly n (states srv)
      (self, sent @ [(''Report_getCurrentStates'',
                      [Val (PStr (f_apikey self)), Val (sessionid_value self)])])")
  have "w' = (self, (sent @ [(''Report_getCurrentStates'',
                      [Val (PStr (f_apikey self)), Val (sessionid_value self)])]) @
               replicate n (''Report_getCurrentStates'',
                      [Val (PStr (f_apikey self)), Val (sessionid_value self)]))"
    using Suc.IH [of "sent @ [(''Report_getCurrentStates'',
                      [Val (PStr (f_apikey self)), Val (sessionid_value self)])]"]
    by (simp add: rs)
  then show ?case by (simp add: r rs)
qed

lemma length_repeatedly: "length (fst (repeatedly n f w)) = n"
proof (induction n arbitrary: w)
  case 0
  show ?case by simp
next
  case (Suc n)
  obtain r w' where r: "f w = (r, w')" by (cases "f w")
  obtain rs w'' where rs: "repeatedly n f w' = (rs, w'')" by (cases "repeatedly n f w'")
  have "length rs = n" using Suc.IH [of w'] by (simp add: rs)
  then show ?case by (simp add: r rs)
qed

lemma locations_cached:
  "f_locations self = Some ls \<Longrightarrow> locations srv (self, sent) = (Inr (Some ls), (self, sent))"
  by (simp add: locations_def)

lemma repeatedly_locations_cached:
  "f_locations self = Some ls \<Longrightarrow>
   repeatedly n (locations srv) (self, sent) = (replicate n (Inr (Some ls)), (self, sent))"
  by (induction n) (simp_all add: locations_cached)

lemma locations_fetch_ok:
  assumes "f_locations self = None"
    and "Location_getList srv (sent @ [(''Location_getList'',
            [Val (PStr (f_apikey self)), Val (sessionid_value self)])]) = (0, res)"
    and "map_of res ''item'' = Some items"
  shows "locations srv (self, sent) =
     (Inr (Some items), (self\<lparr>f_locations := Some items\<rparr>,
        sent @ [(''Location_getList'', [Val (PStr (f_apikey self)), Val (sessionid_value self)])]))"
  using assms by (simp add: locations_def location_getList_def callWithParams_sent)

lemma locations_fetch_fail:
  assumes "f_locations self = None"
    and "fst (Location_getList srv (sent @ [(''Location_getList'',
            [Val (PStr (f_apikey self)), Val (sessionid_value self)])])) \<noteq> 0"
  shows "isl (fst (locations srv (self, sent))) \<and> snd (locations srv (self, sent)) =
     (self, sent @ [(''Location_getList'', [Val (PStr (f_apikey self)), Val (sessionid_value self)])])"
proof -
  obtain st res where r: "Location_getList srv (sent @ [(''Location_getList'',
            [Val (PStr (f_apikey self)), Val (sessionid_value self)])]) = (st, res)"
    by (cases "Location_getList srv (sent @ [(''Location_getList'',
            [Val (PStr (f_apikey self)), Val (sessionid_value self)])])")
  with assms have "st \<noteq> 0" by simp
  with assms(1) r show ?thesis
    by (simp add: locations_def location_getList_def callWithParams_sent)
qed

lemma locations_leaves_checks:
  "f_checks (fst (snd (locations srv (self, sent)))) = f_checks self"
  by (simp add: locations_def location_getList_def callWithParams_sent
           split: prod.splits option.splits)

lemma locations_sent:
  "snd (snd (locations srv (self, sent))) = sent \<or>
   snd (snd (locations srv (self, sent))) =
     sent @ [(''Location_getList'', [Val (PStr (f_apikey self)), Val (sessionid_value self)])]"
  by (simp add: locations_def location_getList_def callWithParams_sent
           split: prod.splits option.splits)

text \<open>The tests of \<open>downtimesFor\<close> in the order of the source, and the invocation it
  dispatches when all of them pass and the library accepts both times.\<close>

lemma downtimesFor_rule1:
  "starttime = endtime \<Longrightarrow>
   downtimesFor srv check starttime endtime resolution w =
     (Inl (ValueError ''Start time and end time must be different''), w)"
  by (simp add: downtimesFor_def)

lemma downtimesFor_rule2:
  "starttime \<noteq> endtime \<Longrightarrow> \<not> key_in resolution REPORT_RESOLUTIONS \<Longrightarrow>
   downtimesFor srv check starttime endtime resolution w =
     (Inl (ValueError ''Invalid report resolution''), w)"
  by (simp add: downtimesFor_def)

lemma downtimesFor_rule3:
  "starttime \<noteq> endtime \<Longrightarrow> key_in resolution REPORT_RESOLUTIONS \<Longrightarrow>
   checks srv w = (Inr (Some cs), w') \<Longrightarrow> check \<notin> set cs \<Longrightarrow>
   downtimesFor srv check starttime endtime resolution w =
     (Inl (KeyError (PStr ''No such check available'')), w')"
  by (simp add: downtimesFor_def)

lemma downtimesFor_rule4:
  "starttime \<noteq> endtime \<Longrightarrow> key_in resolution REPORT_RESOLUTIONS \<Longrightarrow>
   checks srv w = (Inr (Some cs), w') \<Longrightarrow> check \<in> set cs \<Longrightarrow>
   PNone \<in> set [check, starttime, endtime, resolution] \<Longrightarrow>
   downtimesFor srv check starttime endtime resolution w =
     (Inl (TypeError ''Invalid type: NoneType''), w')"
  by (simp add: downtimesFor_def)

lemma downtimesFor_dispatch:
  assumes "starttime \<noteq> endtime" and "key_in resolution REPORT_RESOLUTIONS"
    and "checks srv w = (Inr (Some cs), (self, sent))" and "check \<in> set cs"
    and "PNone \<notin> set [check, starttime, endtime, resolution]"
    and "convertTime srv starttime = Inr a" and "convertTime srv endtime = Inr b"
  shows "snd (downtimesFor srv check starttime endtime resolution w) =
     (self, sent @ [(''Report_getDowntimes'',
        [Val (PStr (f_apikey self)), Val (sessionid_value self),
         Dict [(''checkName'', Val (PStr ''Communicate'')),
               (''from'', a), (''to'', b),
               (''resolution'', Val (PStr ''DAILY''))]])])"
  using assms
  by (simp add: downtimesFor_def call_report_getDowntimes_def report_getDowntimes_def
        callWithParams_sent Let_def split: prod.splits option.splits)

text \<open>When the library's constructor refuses a time, nothing is sent.\<close>

lemma downtimesFor_bad_time:
  assumes "starttime \<noteq> endtime" and "key_in resolution REPORT_RESOLUTIONS"
    and "checks srv w = (Inr (Some cs), w')" and "check \<in> set cs"
    and "PNone \<notin> set [check, starttime, endtime, resolution]"
    and "convertTime srv starttime = Inl e"
  shows "downtimesFor srv check starttime endtime resolution w = (Inl e, w')"
  using assms
  by (cases w')
     (simp add: downtimesFor_def call_report_getDowntimes_def report_getDowntimes_def)

lemmas run_defs =
  callWithParams_def sessionid_value_def apikey_def login_def logout_def check_getList_def
  location_getList_def report_getCurrentStates_def report_getDowntimes_def
  call_report_getDowntimes_def convertTime_def checks_def locations_def states_def
  downtimes_def downtimesFor_def echo_def Pingdom_init_def Pingdom_del_def dispose_def

lemmas fixture_defs =
  srv_status_def srv_flaky_def client0_def client1_def jan1_def jan2_def
  plain_dateTimeType_def STATUS_CODES_def REPORT_RESOLUTIONS_def

subsection \<open>C1: the parameter map of the downtime report\<close>

text \<open>
  \<^bold>\<open>C1.\<close> The claim: for every check, start time, end time and resolution that pass
  the four validation rules, \<open>downtimesFor\<close> dispatches exactly one
  \<^verbatim>\<open>Report_getDowntimes\<close> whose parameter map has the caller's check as
  \<^verbatim>\<open>checkName\<close>, the caller's resolution as \<^verbatim>\<open>resolution\<close>, and the converted start
  and end times as \<^verbatim>\<open>from\<close> and \<^verbatim>\<open>to\<close>.

  \<^verbatim>\<open>_report_getDowntimes\<close> receives the check and the resolution and does not use
  them: the map is built with the literals \<^verbatim>\<open>'Communicate'\<close> and \<^verbatim>\<open>'DAILY'\<close>. The run
  below asks for the check \<^verbatim>\<open>'www'\<close> (which is in the cached list) at the resolution
  \<^verbatim>\<open>'WEEKLY'\<close>; the one invocation sent carries \<^verbatim>\<open>'Communicate'\<close> and \<^verbatim>\<open>'DAILY'\<close>.
  The times are converted as claimed (the library's date-time object built from the
  first six fields of each tuple).
\<close>

theorem C1_downtimesFor_params_hardcoded:
  "snd (snd (downtimesFor (srv_status 0) (PStr ''www'') jan1 jan2 (PStr ''WEEKLY'')
               (client1, [])))
   = [(''Report_getDowntimes'',
        [Val (PStr ''key''), Val (PStr ''token''),
         Dict [(''checkName'', Val (PStr ''Communicate'')),
               (''from'', DateTime (PTuple [PInt 2009, PInt 1, PInt 1, PInt 0, PInt 0, PInt 0])),
               (''to'', DateTime (PTuple [PInt 2009, PInt 1, PInt 2, PInt 0, PInt 0, PInt 0])),
               (''resolution'', Val (PStr ''DAILY''))]])]"
  by (simp add: run_defs fixture_defs)

subsection \<open>C2: a check that is not in the list\<close>

text \<open>
  \<^bold>\<open>C2.\<close> The claim: for a check that is not in the client's checks (times that
  differ, a recognised resolution), \<open>downtimesFor\<close> fails with a not-found error
  carrying the reason \<^verbatim>\<open>'No such check available'\<close> and sends no
  \<^verbatim>\<open>Report_getDowntimes\<close>.

  The source raises \<^verbatim>\<open>PingdomException("No such check available")\<close>, and the
  constructor of \<^verbatim>\<open>PingdomException\<close> subscripts \<^verbatim>\<open>STATUS_CODES\<close> with its argument.
  The reason is not a key of that table, so the exception that reaches the caller is
  the \<^verbatim>\<open>KeyError\<close> of the constructor. In the run below nothing is sent, as claimed.
\<close>

theorem C2_absent_check_raises_KeyError:
  "downtimesFor (srv_status 0) (PStr ''nosuch'') jan1 jan2 (PStr ''DAILY'') (client1, [])
   = (Inl (KeyError (PStr ''No such check available'')), (client1, []))"
  by (simp add: run_defs fixture_defs)

subsection \<open>C3: disposal\<close>

text \<open>
  The method first. With a session token held, \<^verbatim>\<open>__del__\<close> sends exactly one
  \<^verbatim>\<open>Auth_logout\<close>; it returns and clears the token when the answer carries status 0,
  and raises what \<^verbatim>\<open>_logout\<close> raises otherwise, keeping the token. Nothing in the
  module catches or logs that exception.
\<close>

lemma Pingdom_del_logout:
  assumes "f_sessionid self = Some sid"
  shows "Pingdom_del srv (self, sent) =
     (case map_of (Auth_logout srv (sent @ [(''Auth_logout'', [Val (PStr (f_apikey self)), Val (PStr sid)])])) ''status'' of
        None \<Rightarrow> (Inl (KeyError (PStr ''status'')), (self, sent @ [(''Auth_logout'', [Val (PStr (f_apikey self)), Val (PStr sid)])]))
      | Some s \<Rightarrow>
          if s = 0 then (Inr (), (self\<lparr>f_sessionid := None\<rparr>, sent @ [(''Auth_logout'', [Val (PStr (f_apikey self)), Val (PStr sid)])]))
          else (Inl (raise_PingdomException (PInt s)), (self, sent @ [(''Auth_logout'', [Val (PStr (f_apikey self)), Val (PStr sid)])])))"
  using assms
  by (simp add: Pingdom_del_def logout_def callWithParams_sent sessionid_value_def
        split: option.splits)

lemma del_method_raises:
  "Pingdom_del (srv_status 3) (client0, [])
   = (Inl (PingdomException 3 ''Invalid Argument''),
      (client0, [(''Auth_logout'', [Val (PStr ''key''), Val (PStr ''token'')])]))"
  by (simp add: run_defs fixture_defs)

text \<open>
  \<^bold>\<open>C3.\<close> For every client holding a session token, disposal calls \<^verbatim>\<open>Auth_logout\<close>
  exactly once (API key, then the token). If that call returns a non-zero status,
  whichever it is, disposal still completes and raises nothing to the code that
  dropped the instance: the token is kept, and the failure is reported on
  \<^verbatim>\<open>sys.stderr\<close> and nowhere else (the exception reported is the service error for a
  status of the status table, and the \<^verbatim>\<open>KeyError\<close> of the table lookup for any other
  status). If the call returns status 0, the token is cleared and nothing is reported.
  An answer without a \<^verbatim>\<open>status\<close> is reported as the \<^verbatim>\<open>KeyError\<close> it raises.

  It is the interpreter's handling of the finalizer that keeps the exception from the
  caller (\<open>dispose\<close>); \<^verbatim>\<open>__del__\<close> itself raises (\<open>Pingdom_del_logout\<close>).
\<close>

theorem C3_dispose_logs_and_completes:
  "f_sessionid self = Some sid \<Longrightarrow>
   fst (dispose srv ((self, sent), stderr)) = Inr ()
   \<and> snd (fst (snd (dispose srv ((self, sent), stderr)))) = sent @ [(''Auth_logout'', [Val (PStr (f_apikey self)), Val (PStr sid)])]
   \<and> (map_of (Auth_logout srv (sent @ [(''Auth_logout'', [Val (PStr (f_apikey self)), Val (PStr sid)])])) ''status'' = Some s \<and> s \<noteq> 0 \<longrightarrow>
        dispose srv ((self, sent), stderr) =
          (Inr (), ((self, sent @ [(''Auth_logout'', [Val (PStr (f_apikey self)), Val (PStr sid)])]),
             stderr @ [case map_of STATUS_CODES s of
                         Some m \<Rightarrow> PingdomException s m
                       | None \<Rightarrow> KeyError (PInt s)])))
   \<and> (map_of (Auth_logout srv (sent @ [(''Auth_logout'', [Val (PStr (f_apikey self)), Val (PStr sid)])])) ''status'' = Some 0 \<longrightarrow>
        dispose srv ((self, sent), stderr) =
          (Inr (), ((self\<lparr>f_sessionid := None\<rparr>, sent @ [(''Auth_logout'', [Val (PStr (f_apikey self)), Val (PStr sid)])]), stderr)))
   \<and> (map_of (Auth_logout srv (sent @ [(''Auth_logout'', [Val (PStr (f_apikey self)), Val (PStr sid)])])) ''status'' = None \<longrightarrow>
        dispose srv ((self, sent), stderr) =
          (Inr (), ((self, sent @ [(''Auth_logout'', [Val (PStr (f_apikey self)), Val (PStr sid)])]), stderr @ [KeyError (PStr ''status'')])))"
proof -
  assume h: "f_sessionid self = Some sid"
  show ?thesis
  proof (cases "map_of (Auth_logout srv (sent @ [(''Auth_logout'', [Val (PStr (f_apikey self)), Val (PStr sid)])])) ''status''")
    case None
    then show ?thesis
      by (simp add: dispose_def Pingdom_del_logout [OF h])
  next
    case (Some st)
    then show ?thesis
      by (cases "map_of STATUS_CODES st")
         (simp_all add: dispose_def Pingdom_del_logout [OF h])
  qed
qed

theorem C3_dispose_logs_and_completes_witness:
  "f_sessionid client0 = Some ''token''
   \<and> dispose (srv_status 0) ((client0, []), []) =
       (Inr (), ((client0\<lparr>f_sessionid := None\<rparr>,
          [(''Auth_logout'', [Val (PStr ''key''), Val (PStr ''token'')])]), []))
   \<and> dispose (srv_status 5) ((client0, []), []) =
       (Inr (), ((client0, [(''Auth_logout'', [Val (PStr ''key''), Val (PStr ''token'')])]),
          [PingdomException 5 ''Wrong Identification'']))
   \<and> dispose (srv_status 8) ((client0, []), []) =
       (Inr (), ((client0, [(''Auth_logout'', [Val (PStr ''key''), Val (PStr ''token'')])]),
          [KeyError (PInt 8)]))"
proof -
  have h: "f_sessionid client0 = Some ''token''" by (simp add: client0_def)
  show ?thesis
    using h
      C3_dispose_logs_and_completes [OF h, where srv = "srv_status 0" and sent = "[]"
        and stderr = "[]"]
      C3_dispose_logs_and_completes [OF h, where srv = "srv_status 5" and sent = "[]"
        and stderr = "[]" and s = 5]
      C3_dispose_logs_and_completes [OF h, where srv = "srv_status 8" and sent = "[]"
        and stderr = "[]" and s = 8]
    by (simp add: srv_status_def client0_def STATUS_CODES_def)
qed

subsection \<open>C4: the arguments of a remote call\<close>

text \<open>
  \<^bold>\<open>C4.\<close> The claim: for every remote call the client issues, \<^verbatim>\<open>Test_echo\<close> through
  \<open>echo\<close> included, the first positional argument is the API key and the second is
  the credentials (for \<^verbatim>\<open>Auth_login\<close>) or the session token (for any other call), the
  call's own arguments following.

  That is what \<^verbatim>\<open>_callWithParams\<close> sends (\<open>callWithParams_sent\<close>), and six of the seven
  procedures go through it. \<open>echo\<close> does not: it invokes \<^verbatim>\<open>self._server.Test_echo\<close>
  with the string alone. In the run below the only argument the proxy receives is
  \<^verbatim>\<open>'hello'\<close>.
\<close>

theorem C4_echo_bypasses_callWithParams:
  "echo (srv_status 0) (PStr ''hello'') (client0, [])
   = (Inr ''hello'', (client0, [(''Test_echo'', [Val (PStr ''hello'')])]))"
  by (simp add: run_defs fixture_defs)

subsection \<open>C5: construction\<close>

text \<open>
  What construction does, for every answer of the proxy. It sends exactly one
  \<^verbatim>\<open>Auth_login\<close> (the API key, then the credentials). With status 0 the caller gets
  the instance, whose session token is the returned session id. With any non-zero
  status construction fails and no instance is returned: the exception is the service
  error carrying the status when the status is a key of the status table, and the
  \<^verbatim>\<open>KeyError\<close> of the table lookup when it is not.
\<close>

lemma Pingdom_init_login:
  "snd (Pingdom_init srv usr pwd key sent) = sent @ [(''Auth_login'', [Val (PStr key),
               Dict [(''username'', Val (PStr usr)), (''password'', Val (PStr pwd))]])]
   \<and> (Auth_login srv (sent @ [(''Auth_login'', [Val (PStr key),
               Dict [(''username'', Val (PStr usr)), (''password'', Val (PStr pwd))]])]) = (0, sid) \<longrightarrow>
        fst (Pingdom_init srv usr pwd key sent) =
          Inr \<lparr>f_credentials = [(''username'', Val (PStr usr)),
                                  (''password'', Val (PStr pwd))],
               f_apikey = key, f_sessionid = Some sid,
               f_checks = None, f_locations = None\<rparr>)
   \<and> (Auth_login srv (sent @ [(''Auth_login'', [Val (PStr key),
               Dict [(''username'', Val (PStr usr)), (''password'', Val (PStr pwd))]])]) = (s, sid) \<and> s \<noteq> 0 \<longrightarrow>
        fst (Pingdom_init srv usr pwd key sent) =
          Inl (case map_of STATUS_CODES s of
                 Some m \<Rightarrow> PingdomException s m
               | None \<Rightarrow> KeyError (PInt s)))"
proof -
  obtain st sd where "Auth_login srv (sent @ [(''Auth_login'', [Val (PStr key),
               Dict [(''username'', Val (PStr usr)), (''password'', Val (PStr pwd))]])]) = (st, sd)"
    by (cases "Auth_login srv (sent @ [(''Auth_login'', [Val (PStr key),
               Dict [(''username'', Val (PStr usr)), (''password'', Val (PStr pwd))]])])")
  then show ?thesis
    by (simp add: Pingdom_init_def login_def callWithParams_sent Let_def)
qed

lemma Pingdom_init_listed_status:
  "Pingdom_init (srv_status 0) ''dan'' ''pw'' ''key'' [] =
     (Inr client0,
      [(''Auth_login'', [Val (PStr ''key''),
          Dict [(''username'', Val (PStr ''dan'')), (''password'', Val (PStr ''pw''))]])])
   \<and> fst (Pingdom_init (srv_status 7) ''dan'' ''pw'' ''key'' []) =
       Inl (PingdomException 7 ''Wrong Authentication'')"
  by (simp add: run_defs fixture_defs)

text \<open>
  \<^bold>\<open>C5.\<close> The claim: construction performs exactly one \<^verbatim>\<open>Auth_login\<close>; with status
  0 the client holds the returned session id; with any non-zero status construction
  fails with a service error carrying exactly that status, and no client is produced.

  The single call, the token on status 0 and the failure on every non-zero status are
  as claimed, and so is the service error for the statuses 1 to 7
  (\<open>Pingdom_init_login\<close>). The status is the integer the service put in its answer,
  and the module does not check it against the table before
  \<^verbatim>\<open>raise PingdomException(status)\<close>; the constructor subscripts \<^verbatim>\<open>STATUS_CODES\<close>
  with it. In the run below the proxy answers the login with status 8: construction
  fails with the \<^verbatim>\<open>KeyError\<close> of that lookup, not with a service error carrying 8.
\<close>

theorem C5_unlisted_status_KeyError:
  "Pingdom_init (srv_status 8) ''dan'' ''pw'' ''key'' []
   = (Inl (KeyError (PInt 8)),
      [(''Auth_login'', [Val (PStr ''key''),
          Dict [(''username'', Val (PStr ''dan'')), (''password'', Val (PStr ''pw''))]])])"
  by (simp add: run_defs fixture_defs)

subsection \<open>C6: the order of the validation rules\<close>

text \<open>
  \<^bold>\<open>C6.\<close> The claim: \<open>downtimesFor\<close> checks four rules in a fixed order, the first
  that fails deciding the error: equal times (invalid argument), an unrecognised
  resolution (invalid argument), a check that is not in the list (not found), a null
  argument (type error); the first two fail with nothing sent, and
  \<^verbatim>\<open>Report_getDowntimes\<close> is dispatched only after all four pass.

  The order, the two \<^verbatim>\<open>ValueError\<close>s with nothing sent, the \<^verbatim>\<open>TypeError\<close> and the
  dispatch are as claimed (\<open>downtimesFor_rule1\<close>, \<open>downtimesFor_rule2\<close>,
  \<open>downtimesFor_rule4\<close>, \<open>downtimesFor_dispatch\<close>). The third rule does not produce a
  not-found error: building the \<^verbatim>\<open>PingdomException\<close> from the reason fails, and the
  caller gets a \<^verbatim>\<open>KeyError\<close>. The run below has a start time of \<^verbatim>\<open>None\<close> and a check
  that is not in the list, on a client with nothing cached: the third rule is reached
  before the fourth, after one \<^verbatim>\<open>Check_getList\<close>, and raises the \<^verbatim>\<open>KeyError\<close>.
\<close>

theorem C6_third_rule_raises_KeyError:
  "downtimesFor (srv_status 0) (PStr ''nosuch'') PNone jan2 (PStr ''DAILY'') (client0, [])
   = (Inl (KeyError (PStr ''No such check available'')),
      (client1, [(''Check_getList'', [Val (PStr ''key''), Val (PStr ''token'')])]))"
  by (simp add: run_defs fixture_defs)

subsection \<open>C7: the caches of checks and locations\<close>

text \<open>
  \<^bold>\<open>C7.\<close> The claim: over any two or more reads of \<open>checks\<close> on one instance at most
  one \<^verbatim>\<open>Check_getList\<close> is sent; \<open>locations\<close> behaves the same with
  \<^verbatim>\<open>Location_getList\<close>; the two caches are independent.

  The list is stored only when the answer has status 0, so a read that fails leaves the
  cache empty and the next read sends the call again. Below, the proxy fails the first
  \<^verbatim>\<open>Check_getList\<close> with status 4 and answers the second: two reads, two calls.
\<close>

theorem C7_failed_fetch_is_repeated:
  "snd (snd (repeatedly 2 (checks srv_flaky) (client0, [])))
   = [(''Check_getList'', [Val (PStr ''key''), Val (PStr ''token'')]),
      (''Check_getList'', [Val (PStr ''key''), Val (PStr ''token'')])]"
  by (simp add: run_defs fixture_defs numeral_2_eq_2)

text \<open>
  \<^bold>\<open>C7, as the code has it.\<close> Once a list is cached, any number of reads of \<open>checks\<close>
  return it and send nothing. A read with nothing cached sends exactly one
  \<^verbatim>\<open>Check_getList\<close>; when the answer has status 0 its \<^verbatim>\<open>item\<close> field is cached, so
  that this read and all later ones return it with that one call in total; when the
  answer has a non-zero status the read fails and nothing is cached. The same holds of
  \<open>locations\<close> with \<^verbatim>\<open>Location_getList\<close>. A read of \<open>checks\<close> leaves the cache of
  locations as it was and sends nothing but \<^verbatim>\<open>Check_getList\<close>, and the other way
  round.
\<close>

theorem C7_caching_after_first_success:
  "(f_checks self = Some cs \<longrightarrow>
      repeatedly n (checks srv) (self, sent) = (replicate n (Inr (Some cs)), (self, sent)))
   \<and> (f_checks self = None
        \<and> Check_getList srv (sent @ [(''Check_getList'',
              [Val (PStr (f_apikey self)), Val (sessionid_value self)])]) = (0, res)
        \<and> map_of res ''item'' = Some items \<longrightarrow>
      repeatedly (Suc n) (checks srv) (self, sent) =
        (replicate (Suc n) (Inr (Some items)),
         (self\<lparr>f_checks := Some items\<rparr>,
          sent @ [(''Check_getList'',
              [Val (PStr (f_apikey self)), Val (sessionid_value self)])])))
   \<and> (f_checks self = None
        \<and> fst (Check_getList srv (sent @ [(''Check_getList'',
              [Val (PStr (f_apikey self)), Val (sessionid_value self)])])) \<noteq> 0 \<longrightarrow>
      isl (fst (checks srv (self, sent)))
      \<and> snd (checks srv (self, sent)) =
          (self, sent @ [(''Check_getList'',
              [Val (PStr (f_apikey self)), Val (sessionid_value self)])]))
   \<and> (f_locations self = Some ls \<longrightarrow>
      repeatedly n (locations srv) (self, sent) = (replicate n (Inr (Some ls)), (self, sent)))
   \<and> (f_locations self = None
        \<and> Location_getList srv (sent @ [(''Location_getList'',
              [Val (PStr (f_apikey self)), Val (sessionid_value self)])]) = (0, lres)
        \<and> map_of lres ''item'' = Some litems \<longrightarrow>
      repeatedly (Suc n) (locations srv) (self, sent) =
        (replicate (Suc n) (Inr (Some litems)),
         (self\<lparr>f_locations := Some litems\<rparr>,
          sent @ [(''Location_getList'',
              [Val (PStr (f_apikey self)), Val (sessionid_value self)])])))
   \<and> (f_locations self = None
        \<and> fst (Location_getList srv (sent @ [(''Location_getList'',
              [Val (PStr (f_apikey self)), Val (sessionid_value self)])])) \<noteq> 0 \<longrightarrow>
      isl (fst (locations srv (self, sent)))
      \<and> snd (locations srv (self, sent)) =
          (self, sent @ [(''Location_getList'',
              [Val (PStr (f_apikey self)), Val (sessionid_value self)])]))
   \<and> f_locations (fst (snd (checks srv (self, sent)))) = f_locations self
   \<and> f_checks (fst (snd (locations srv (self, sent)))) = f_checks self
   \<and> (snd (snd (checks srv (self, sent))) = sent
      \<or> snd (snd (checks srv (self, sent))) =
          sent @ [(''Check_getList'',
              [Val (PStr (f_apikey self)), Val (sessionid_value self)])])
   \<and> (snd (snd (locations srv (self, sent))) = sent
      \<or> snd (snd (locations srv (self, sent))) =
          sent @ [(''Location_getList'',
              [Val (PStr (f_apikey self)), Val (sessionid_value self)])])"
proof -
  have a: "f_checks self = None
        \<and> Check_getList srv (sent @ [(''Check_getList'',
              [Val (PStr (f_apikey self)), Val (sessionid_value self)])]) = (0, res)
        \<and> map_of res ''item'' = Some items \<longrightarrow>
      repeatedly (Suc n) (checks srv) (self, sent) =
        (replicate (Suc n) (Inr (Some items)),
         (self\<lparr>f_checks := Some items\<rparr>,
          sent @ [(''Check_getList'',
              [Val (PStr (f_apikey self)), Val (sessionid_value self)])]))"
    by (simp add: checks_fetch_ok repeatedly_checks_cached)
  have b: "f_locations self = None
        \<and> Location_getList srv (sent @ [(''Location_getList'',
              [Val (PStr (f_apikey self)), Val (sessionid_value self)])]) = (0, lres)
        \<and> map_of lres ''item'' = Some litems \<longrightarrow>
      repeatedly (Suc n) (locations srv) (self, sent) =
        (replicate (Suc n) (Inr (Some litems)),
         (self\<lparr>f_locations := Some litems\<rparr>,
          sent @ [(''Location_getList'',
              [Val (PStr (f_apikey self)), Val (sessionid_value self)])]))"
    by (simp add: locations_fetch_ok repeatedly_locations_cached)
  show ?thesis
    using a b repeatedly_checks_cached [of self cs n srv sent]
      repeatedly_locations_cached [of self ls n srv sent]
      checks_fetch_fail [of self srv sent] locations_fetch_fail [of self srv sent]
      checks_leaves_locations [of srv self sent] locations_leaves_checks [of srv self sent]
      checks_sent [of srv self sent] locations_sent [of srv self sent]
    by blast
qed

theorem C7_caching_witness:
  "repeatedly 3 (checks (srv_status 0)) (client1, []) =
     (replicate 3 (Inr (Some [PStr ''www'', PStr ''db''])), (client1, []))
   \<and> repeatedly (Suc 2) (checks (srv_status 0)) (client0, []) =
     (replicate (Suc 2) (Inr (Some [PStr ''www'', PStr ''db''])),
      (client1, [(''Check_getList'', [Val (PStr ''key''), Val (PStr ''token'')])]))
   \<and> repeatedly (Suc 2) (locations (srv_status 0)) (client0, []) =
     (replicate (Suc 2) (Inr (Some [PStr ''Stockholm''])),
      (client0\<lparr>f_locations := Some [PStr ''Stockholm'']\<rparr>,
       [(''Location_getList'', [Val (PStr ''key''), Val (PStr ''token'')])]))
   \<and> snd (checks (srv_status 4) (client0, [])) =
      (client0, [(''Check_getList'', [Val (PStr ''key''), Val (PStr ''token'')])])"
  using C7_caching_after_first_success [where self = client1 and cs = "[PStr ''www'', PStr ''db'']" and n = 3
          and srv = "srv_status 0" and sent = "[]"]
        C7_caching_after_first_success [where self = client0 and n = 2 and srv = "srv_status 0" and sent = "[]"
          and res = "[(''item'', [PStr ''www'', PStr ''db''])]"
          and items = "[PStr ''www'', PStr ''db'']"
          and lres = "[(''item'', [PStr ''Stockholm''])]"
          and litems = "[PStr ''Stockholm'']"]
        C7_caching_after_first_success [where self = client0 and srv = "srv_status 4" and sent = "[]"]
  by (simp add: srv_status_def client0_def client1_def sessionid_value_def)

subsection \<open>C8: states is never cached\<close>

text \<open>
  What reading \<open>states\<close> does, for every answer of the proxy. \<open>n\<close> reads send exactly
  \<open>n\<close> \<^verbatim>\<open>Report_getCurrentStates\<close> (API key, session token), whatever each read
  returns, and leave the instance as it was. A read whose answer has status 0 returns
  the records of the \<^verbatim>\<open>item\<close> field, each converted with \<^verbatim>\<open>_asdict\<close>. A read whose
  answer has a non-zero status fails: with the service error carrying the status when
  the status is a key of the status table, with the \<^verbatim>\<open>KeyError\<close> of the table lookup
  when it is not.
\<close>

lemma states_uncached:
  "snd (repeatedly n (states srv) (self, sent)) =
     (self, sent @ replicate n (''Report_getCurrentStates'',
          [Val (PStr (f_apikey self)), Val (sessionid_value self)]))
   \<and> length (fst (repeatedly n (states srv) (self, sent))) = n
   \<and> (Report_getCurrentStates srv (sent @ [(''Report_getCurrentStates'',
          [Val (PStr (f_apikey self)), Val (sessionid_value self)])]) = (0, res)
        \<and> map_of res ''item'' = Some items \<longrightarrow>
      fst (states srv (self, sent)) = Inr (map asdict items))
   \<and> (Report_getCurrentStates srv (sent @ [(''Report_getCurrentStates'',
          [Val (PStr (f_apikey self)), Val (sessionid_value self)])]) = (s, res) \<and> s \<noteq> 0 \<longrightarrow>
      fst (states srv (self, sent)) =
        Inl (case map_of STATUS_CODES s of
               Some m \<Rightarrow> PingdomException s m
             | None \<Rightarrow> KeyError (PInt s)))"
proof -
  have ok: "Report_getCurrentStates srv (sent @ [(''Report_getCurrentStates'',
          [Val (PStr (f_apikey self)), Val (sessionid_value self)])]) = (0, res)
        \<and> map_of res ''item'' = Some items \<longrightarrow>
      fst (states srv (self, sent)) = Inr (map asdict items)"
    by (simp add: states_def report_getCurrentStates_def callWithParams_sent)
  have bad: "Report_getCurrentStates srv (sent @ [(''Report_getCurrentStates'',
          [Val (PStr (f_apikey self)), Val (sessionid_value self)])]) = (s, res) \<and> s \<noteq> 0 \<longrightarrow>
      fst (states srv (self, sent)) =
        Inl (case map_of STATUS_CODES s of
               Some m \<Rightarrow> PingdomException s m
             | None \<Rightarrow> KeyError (PInt s))"
    by (cases "map_of STATUS_CODES s")
       (simp_all add: states_def report_getCurrentStates_def callWithParams_sent)
  show ?thesis
    using ok bad repeatedly_states_world [of n srv self sent]
      length_repeatedly [of n "states srv" "(self, sent)"]
    by blast
qed

lemma states_listed_status:
  "snd (repeatedly 3 (states (srv_status 0)) (client0, [])) =
     (client0, replicate 3 (''Report_getCurrentStates'', [Val (PStr ''key''), Val (PStr ''token'')]))
   \<and> fst (states (srv_status 0) (client0, [])) =
       Inr (map asdict [structType [(''checkName'', PStr ''www''),
                                      (''checkState'', PStr ''CHECK_UP'')]])
   \<and> fst (states (srv_status 6) (client0, [])) =
       Inl (PingdomException 6 ''Wrong Authorization'')"
  using states_uncached [where n = 3 and self = client0 and srv = "srv_status 0" and sent = "[]"
          and res = "[(''item'', [structType [(''checkName'', PStr ''www''),
                                      (''checkState'', PStr ''CHECK_UP'')]])]"
          and items = "[structType [(''checkName'', PStr ''www''),
                                      (''checkState'', PStr ''CHECK_UP'')]]"]
        states_uncached [where self = client0 and srv = "srv_status 6" and sent = "[]"
          and s = 6
          and res = "[(''item'', [structType [(''checkName'', PStr ''www''),
                                      (''checkState'', PStr ''CHECK_UP'')]])]"]
  by (simp add: srv_status_def client0_def sessionid_value_def STATUS_CODES_def)

text \<open>
  \<^bold>\<open>C8.\<close> The claim: \<open>n\<close> reads of \<open>states\<close> on one instance send exactly \<open>n\<close>
  \<^verbatim>\<open>Report_getCurrentStates\<close>; with status 0 a read returns the records of the
  \<^verbatim>\<open>item\<close> field, each as a plain mapping; with a non-zero status it fails with a
  service error carrying the status.

  The count, the conversion and the failure on every non-zero status are as claimed,
  and so is the service error for the statuses 1 to 7 (\<open>states_uncached\<close>). As in
  construction, the status is whatever integer the service answered, and
  \<^verbatim>\<open>raise PingdomException(status)\<close> subscripts \<^verbatim>\<open>STATUS_CODES\<close> with it. In the run
  below the proxy answers with status 8, and the read fails with the \<^verbatim>\<open>KeyError\<close> of
  that lookup, not with a service error carrying 8.
\<close>

theorem C8_unlisted_status_KeyError:
  "states (srv_status 8) (client0, [])
   = (Inl (KeyError (PInt 8)),
      (client0, [(''Report_getCurrentStates'', [Val (PStr ''key''), Val (PStr ''token'')])]))"
  by (simp add: run_defs fixture_defs)

subsection \<open>C9: downtimes\<close>

text \<open>
  \<^bold>\<open>C9.\<close> For every instance, \<open>downtimes\<close> raises a \<^verbatim>\<open>TypeError\<close> and sends
  nothing: it calls \<^verbatim>\<open>self._report_getDowntimes()\<close> with no argument, and the method
  has four parameters besides \<^verbatim>\<open>self\<close>.
\<close>

theorem C9_downtimes_TypeError:
  "downtimes srv (self, sent) =
     (Inl (TypeError ''_report_getDowntimes() takes exactly 5 arguments''),
      (self, sent))"
  by (simp add: downtimes_def call_report_getDowntimes_def)

subsection \<open>C10: username\<close>

text \<open>
  \<^bold>\<open>C10.\<close> For every instance, reading \<open>username\<close> raises an \<^verbatim>\<open>AttributeError\<close>:
  the property reads \<^verbatim>\<open>self.credentials\<close>, and the constructor stores the credentials
  under \<^verbatim>\<open>_credentials\<close>; no attribute of the instance or of the class is named
  \<^verbatim>\<open>credentials\<close>.
\<close>

theorem C10_username_AttributeError:
  "username self = Inl (AttributeError ''credentials'')"
  by (simp add: username_def getattribute_def instance_dict_def class_names_def)

end
